theory Spec2Isabelle
  imports Main "HOL-Library.AList"
begin

section \<open>ArcGIS Server service manager: the data\<close>

text \<open>
  A shallow embedding of \<^verbatim>\<open>arcgis_service_manager.py\<close>: the class
  \<^verbatim>\<open>ArcGISServerManager\<close> with its request executor, the service catalogue, the
  configuration read-modify-write, and the three workflows save, stop-all-but-one and
  restore, together with the parts of Python's \<^verbatim>\<open>csv\<close> module and text-mode file
  reading that the snapshot file passes through.

  Modelling decisions, stated once:
  \<^item> A Python string is a \<open>string\<close> whose characters are the code points below 256;
    code points above are outside the model, and so is the encoding of the files.
  \<^item> A decoded JSON value that the program only stores, compares or prints is a \<open>jval\<close>.
    An object is \<open>JObject t\<close>, and an array or a number with a fraction is \<open>JOther t\<close>,
    with \<open>t\<close> the text Python's \<^verbatim>\<open>str()\<close> gives for it: besides the kind, this text is
    all the program observes of such a value.
  \<^item> The body of a reply that decodes is a JSON object, a \<open>document\<close>. Its members \<^verbatim>\<open>services\<close> and
    \<^verbatim>\<open>folders\<close>, when present, have the shape the Admin API documents (a list of
    objects with string members \<^verbatim>\<open>serviceName\<close> and \<^verbatim>\<open>type\<close>; a list of strings),
    so they are typed fields; every other member is an entry of the association list
    \<open>members\<close>, in insertion order.
  \<^item> The remote server is a function from the requests it has received so far and the
    next request to a reply; nothing is assumed about it. The world carries the list of
    requests sent, oldest first, and the files.
  \<^item> An exception is a value: a function that can raise returns \<open>Inl\<close> of the exception
    and the world as it was when it was raised. Only \<^verbatim>\<open>save_services_state\<close> (inside
    its \<^verbatim>\<open>try\<close>) and \<^verbatim>\<open>restore_services_state\<close> catch exceptions.
  \<^item> Console messages (\<^verbatim>\<open>print\<close>) and the counters that only feed them are left out;
    an expression inside a message that can raise is kept.
  \<^item> Interpreter resource limits (\<^verbatim>\<open>csv.field_size_limit\<close>, the integer/string digit
    limit) are left out.
\<close>

datatype jval = JNull | JBool bool | JInt int | JStr string | JObject string | JOther string

datatype py_error = KeyError | TypeError | ValueError | AttributeError | CsvError

record document =
  members :: "(string \<times> jval) list"
  services :: "(string \<times> string) list option"
  folders :: "string list option"

datatype http_method = GET | POST

datatype param = PStr string | PJson document

record request =
  req_method :: http_method
  endpoint :: string
  params :: "(string \<times> param) list"

datatype reply = RequestException | Response document

type_synonym server = "request list \<Rightarrow> request \<Rightarrow> reply"

record world =
  history :: "request list"
  files :: "string \<Rightarrow> string option"
  unwritable :: "string set"

record manager =
  token :: "string option"

record service =
  folder :: string
  name :: string
  type :: string

text \<open>\<^verbatim>\<open>self.excluded_folders = {'Hosted', 'System', 'Utilities'}\<close>, set once in
  \<^verbatim>\<open>__init__\<close> and never assigned again.\<close>

definition excluded_folders :: "string set" where
  "excluded_folders = {''Hosted'', ''System'', ''Utilities''}"

section \<open>Python dictionaries\<close>

text \<open>\<^verbatim>\<open>d.get(k, default)\<close>\<close>

definition get_default :: "('k \<times> 'v) list \<Rightarrow> 'k \<Rightarrow> 'v \<Rightarrow> 'v" where
  "get_default d k dflt = (case map_of d k of None \<Rightarrow> dflt | Some v \<Rightarrow> v)"

text \<open>Truth value of a decoded object: an empty \<^verbatim>\<open>dict\<close> is false.\<close>

definition truthy :: "document \<Rightarrow> bool" where
  "truthy d = (members d \<noteq> [] \<or> services d \<noteq> None \<or> folders d \<noteq> None)"

text \<open>Truth value of what a request returned, as \<^verbatim>\<open>if details:\<close> and
  \<^verbatim>\<open>if not service_details:\<close> test it: \<^verbatim>\<open>None\<close> and the empty object are false.\<close>

definition truthy_result :: "document option \<Rightarrow> bool" where
  "truthy_result result = (case result of None \<Rightarrow> False | Some d \<Rightarrow> truthy d)"

text \<open>\<^verbatim>\<open>result is not None and result.get('status') == 'success'\<close>\<close>

definition reports_success :: "document option \<Rightarrow> bool" where
  "reports_success result =
     (case result of None \<Rightarrow> False
      | Some d \<Rightarrow> map_of (members d) ''status'' = Some (JStr ''success''))"

section \<open>The request executor\<close>

text \<open>
  \<^verbatim>\<open>_make_request\<close>: without a token nothing is sent. Otherwise the token and the
  format marker are merged into a copy of the data and the request goes out. A transport
  failure gives \<^verbatim>\<open>None\<close>. For a document with an \<^verbatim>\<open>error\<close> member the code evaluates
  \<^verbatim>\<open>result['error'].get('message', 'Unknown error')\<close> for its message: when the member
  is an object this gives \<^verbatim>\<open>None\<close>, and when it is anything else the attribute lookup
  raises \<^verbatim>\<open>AttributeError\<close>, which \<^verbatim>\<open>except requests.RequestException\<close> does not
  catch. The URL is the server's base URL, \<^verbatim>\<open>/arcgis/admin/\<close> and the endpoint; the
  request records the endpoint.
\<close>

definition build_request :: "string \<Rightarrow> string \<Rightarrow> (string \<times> param) list \<Rightarrow> http_method \<Rightarrow> request" where
  "build_request tok ep data m =
     \<lparr>req_method = m, endpoint = ep,
      params = AList.update ''f'' (PStr ''json'') (AList.update ''token'' (PStr tok) data)\<rparr>"

text \<open>What \<^verbatim>\<open>_make_request\<close> makes of a reply of the transport.\<close>

definition accepted :: "reply \<Rightarrow> py_error + document option" where
  "accepted r =
     (case r of
        RequestException \<Rightarrow> Inr None
      | Response result \<Rightarrow>
          (case map_of (members result) ''error'' of
             None \<Rightarrow> Inr (Some result)
           | Some v \<Rightarrow> (case v of JObject t \<Rightarrow> Inr None | _ \<Rightarrow> Inl AttributeError)))"

definition make_request ::
  "server \<Rightarrow> manager \<Rightarrow> string \<Rightarrow> (string \<times> param) list \<Rightarrow> http_method \<Rightarrow> world
     \<Rightarrow> (py_error + document option) \<times> world" where
  "make_request srv mgr ep data m w =
     (case token mgr of
        None \<Rightarrow> (Inr None, w)
      | Some tok \<Rightarrow>
          if tok = [] then (Inr None, w)
          else
            let req = build_request tok ep data m
            in (accepted (srv (history w) req), w\<lparr>history := history w @ [req]\<rparr>))"

section \<open>The service catalogue\<close>

definition tag_services :: "string \<Rightarrow> (string \<times> string) list \<Rightarrow> service list" where
  "tag_services f es = map (\<lambda>(n, t). \<lparr>folder = f, name = n, type = t\<rparr>) es"

text \<open>\<^verbatim>\<open>if result and 'services' in result: for service in result['services']: ...\<close>\<close>

definition listed_services :: "string \<Rightarrow> document option \<Rightarrow> service list" where
  "listed_services f result =
     (case result of None \<Rightarrow> []
      | Some d \<Rightarrow> (case services d of None \<Rightarrow> [] | Some es \<Rightarrow> tag_services f es))"

definition listed_folders :: "document option \<Rightarrow> string list" where
  "listed_folders result =
     (case result of None \<Rightarrow> []
      | Some d \<Rightarrow> (case folders d of None \<Rightarrow> [] | Some fs \<Rightarrow> fs))"

text \<open>The loop \<^verbatim>\<open>for folder in result['folders']\<close>. Nothing here catches an
  exception of a request.\<close>

fun folder_services ::
  "server \<Rightarrow> manager \<Rightarrow> string list \<Rightarrow> world \<Rightarrow> (py_error + service list) \<times> world" where
  "folder_services srv mgr [] w = (Inr [], w)"
| "folder_services srv mgr (f # fs) w =
     (case make_request srv mgr (''services/'' @ f) [] GET w of
        (Inl e, w1) \<Rightarrow> (Inl e, w1)
      | (Inr folder_result, w1) \<Rightarrow>
          (case folder_services srv mgr fs w1 of
             (Inl e, w2) \<Rightarrow> (Inl e, w2)
           | (Inr rest, w2) \<Rightarrow> (Inr (listed_services f folder_result @ rest), w2)))"

definition get_services :: "server \<Rightarrow> manager \<Rightarrow> world \<Rightarrow> (py_error + service list) \<times> world" where
  "get_services srv mgr w =
     (case make_request srv mgr ''services'' [] GET w of
        (Inl e, w1) \<Rightarrow> (Inl e, w1)
      | (Inr result, w1) \<Rightarrow>
          (case folder_services srv mgr (listed_folders result) w1 of
             (Inl e, w2) \<Rightarrow> (Inl e, w2)
           | (Inr sub, w2) \<Rightarrow> (Inr (listed_services [] result @ sub), w2)))"

section \<open>Reading and changing one service\<close>

text \<open>The endpoint of a service: root-folder services leave the folder segment out.\<close>

definition service_endpoint :: "string \<Rightarrow> string \<Rightarrow> string \<Rightarrow> string" where
  "service_endpoint f n t =
     (if f \<noteq> [] then ''services/'' @ f @ ''/'' @ n @ ''.'' @ t
      else ''services/'' @ n @ ''.'' @ t)"

definition get_service_details ::
  "server \<Rightarrow> manager \<Rightarrow> string \<Rightarrow> string \<Rightarrow> string \<Rightarrow> world
     \<Rightarrow> (py_error + document option) \<times> world" where
  "get_service_details srv mgr f n t w = make_request srv mgr (service_endpoint f n t) [] GET w"

definition start_service ::
  "server \<Rightarrow> manager \<Rightarrow> string \<Rightarrow> string \<Rightarrow> string \<Rightarrow> world \<Rightarrow> (py_error + bool) \<times> world" where
  "start_service srv mgr f n t w =
     (case make_request srv mgr (service_endpoint f n t @ ''/start'') [] POST w of
        (Inl e, w') \<Rightarrow> (Inl e, w')
      | (Inr result, w') \<Rightarrow> (Inr (reports_success result), w'))"

definition stop_service ::
  "server \<Rightarrow> manager \<Rightarrow> string \<Rightarrow> string \<Rightarrow> string \<Rightarrow> world \<Rightarrow> (py_error + bool) \<times> world" where
  "stop_service srv mgr f n t w =
     (case make_request srv mgr (service_endpoint f n t @ ''/stop'') [] POST w of
        (Inl e, w') \<Rightarrow> (Inl e, w')
      | (Inr result, w') \<Rightarrow> (Inr (reports_success result), w'))"

text \<open>
  The record sent back by \<^verbatim>\<open>update_service_instances\<close>: the two bounds are assigned,
  then each of the four read-only properties is popped.
\<close>

definition readonly_props :: "string list" where
  "readonly_props = [''status'', ''configuredState'', ''realTimeState'', ''extensions'']"

definition edit_record :: "document \<Rightarrow> int \<Rightarrow> int \<Rightarrow> document" where
  "edit_record service_details min_instances max_instances =
     service_details\<lparr>members :=
       fold AList.delete readonly_props
         (AList.update ''maxInstancesPerNode'' (JInt max_instances)
           (AList.update ''minInstancesPerNode'' (JInt min_instances)
             (members service_details)))\<rparr>"

definition update_service_instances ::
  "server \<Rightarrow> manager \<Rightarrow> string \<Rightarrow> string \<Rightarrow> string \<Rightarrow> int \<Rightarrow> int \<Rightarrow> world
     \<Rightarrow> (py_error + bool) \<times> world" where
  "update_service_instances srv mgr f n t min_instances max_instances w =
     (case get_service_details srv mgr f n t w of
        (Inl e, w1) \<Rightarrow> (Inl e, w1)
      | (Inr None, w1) \<Rightarrow> (Inr False, w1)
      | (Inr (Some service_details), w1) \<Rightarrow>
          if \<not> truthy service_details then (Inr False, w1)
          else
            let edit_data = [(''service'', PJson (edit_record service_details min_instances max_instances))]
            in (case make_request srv mgr (service_endpoint f n t @ ''/edit'') edit_data POST w1 of
                  (Inl e, w2) \<Rightarrow> (Inl e, w2)
                | (Inr result, w2) \<Rightarrow> (Inr (reports_success result), w2)))"

section \<open>Stop all services except one\<close>

text \<open>
  The loop of \<^verbatim>\<open>stop_all_except_one\<close>, with the flag \<^verbatim>\<open>kept_service_found\<close> as an
  argument. What the edit, the start and the stop return only chooses a message; an
  exception of one of them leaves the loop and the function.
\<close>

fun stop_loop ::
  "server \<Rightarrow> manager \<Rightarrow> string \<Rightarrow> service list \<Rightarrow> bool \<Rightarrow> world \<Rightarrow> (py_error + bool) \<times> world" where
  "stop_loop srv mgr keep_service [] kept_service_found w = (Inr kept_service_found, w)"
| "stop_loop srv mgr keep_service (s # ss) kept_service_found w =
     (if folder s \<in> excluded_folders then stop_loop srv mgr keep_service ss kept_service_found w
      else if name s = keep_service then
        (case update_service_instances srv mgr (folder s) (name s) (type s) 1 1 w of
           (Inl e, w1) \<Rightarrow> (Inl e, w1)
         | (Inr updated, w1) \<Rightarrow>
             (case start_service srv mgr (folder s) (name s) (type s) w1 of
                (Inl e, w2) \<Rightarrow> (Inl e, w2)
              | (Inr started, w2) \<Rightarrow> stop_loop srv mgr keep_service ss True w2))
      else
        (case stop_service srv mgr (folder s) (name s) (type s) w of
           (Inl e, w1) \<Rightarrow> (Inl e, w1)
         | (Inr stopped, w1) \<Rightarrow> stop_loop srv mgr keep_service ss kept_service_found w1))"

definition stop_all_except_one ::
  "server \<Rightarrow> manager \<Rightarrow> string \<Rightarrow> world \<Rightarrow> (py_error + bool) \<times> world" where
  "stop_all_except_one srv mgr keep_service w =
     (case get_services srv mgr w of
        (Inl e, w1) \<Rightarrow> (Inl e, w1)
      | (Inr svcs, w1) \<Rightarrow>
          if svcs = [] then (Inr False, w1)
          else stop_loop srv mgr keep_service svcs False w1)"

section \<open>The snapshot file: writing\<close>

text \<open>The dictionary handed to \<^verbatim>\<open>writer.writerow\<close>, one field per column.\<close>

record snapshot_row =
  row_folder :: string
  service_name :: string
  service_type :: string
  configured_state :: jval
  min_instances :: jval
  max_instances :: jval

definition fieldnames :: "string list" where
  "fieldnames = [''folder'', ''service_name'', ''service_type'', ''configured_state'',
                 ''min_instances'', ''max_instances'']"

definition digit_char :: "nat \<Rightarrow> char" where
  "digit_char d = ''0123456789'' ! d"

fun str_nat :: "nat \<Rightarrow> string" where
  "str_nat n = (if n < 10 then [digit_char n] else str_nat (n div 10) @ [digit_char (n mod 10)])"

declare str_nat.simps [simp del]

definition str_int :: "int \<Rightarrow> string" where
  "str_int i = (if i < 0 then CHR ''-'' # str_nat (nat (- i)) else str_nat (nat i))"

text \<open>What the csv writer makes of a field value: \<^verbatim>\<open>None\<close> is the empty string, a string
  is itself, anything else goes through \<^verbatim>\<open>str()\<close>.\<close>

fun cell_text :: "jval \<Rightarrow> string" where
  "cell_text JNull = []"
| "cell_text (JBool b) = (if b then ''True'' else ''False'')"
| "cell_text (JInt i) = str_int i"
| "cell_text (JStr s) = s"
| "cell_text (JObject t) = t"
| "cell_text (JOther t) = t"

definition QUOTE :: char where "QUOTE = CHR 0x22"
definition CR :: char where "CR = CHR 0x0D"
definition LF :: char where "LF = CHR 0x0A"
definition COMMA :: char where "COMMA = CHR '',''"

text \<open>
  The \<^verbatim>\<open>excel\<close> dialect with \<^verbatim>\<open>QUOTE_MINIMAL\<close>: a field is quoted when it holds the
  delimiter, the quote character or a character of the line terminator; a quote
  character inside is doubled. A record that is one empty field is written as two
  quote characters. Every record ends with the line terminator \<^verbatim>\<open>\r\n\<close>.
\<close>

definition special :: "char \<Rightarrow> bool" where
  "special c = (c = COMMA \<or> c = QUOTE \<or> c = CR \<or> c = LF)"

definition quote_field :: "string \<Rightarrow> string" where
  "quote_field s =
     (if list_ex special s
      then QUOTE # concat (map (\<lambda>c. if c = QUOTE then [QUOTE, QUOTE] else [c]) s) @ [QUOTE]
      else s)"

fun join_fields :: "string list \<Rightarrow> string" where
  "join_fields [] = []"
| "join_fields [x] = x"
| "join_fields (x # y # ys) = x @ COMMA # join_fields (y # ys)"

definition writerow :: "string list \<Rightarrow> string" where
  "writerow cells =
     (if cells = [[]] then [QUOTE, QUOTE] else join_fields (map quote_field cells)) @ [CR, LF]"

definition row_cells :: "snapshot_row \<Rightarrow> string list" where
  "row_cells r =
     [row_folder r, service_name r, service_type r, cell_text (configured_state r),
      cell_text (min_instances r), cell_text (max_instances r)]"

text \<open>\<^verbatim>\<open>writer.writeheader()\<close>, then one \<^verbatim>\<open>writer.writerow\<close> for each row.\<close>

definition encode :: "snapshot_row list \<Rightarrow> string" where
  "encode rows = writerow fieldnames @ concat (map (\<lambda>r. writerow (row_cells r)) rows)"

section \<open>Save\<close>

text \<open>The row written for a service whose details were fetched.\<close>

definition project :: "service \<Rightarrow> document \<Rightarrow> snapshot_row" where
  "project s details =
     \<lparr>row_folder = folder s, service_name = name s, service_type = type s,
      configured_state = get_default (members details) ''configuredState'' (JStr ''STOPPED''),
      min_instances = get_default (members details) ''minInstancesPerNode'' (JInt 1),
      max_instances = get_default (members details) ''maxInstancesPerNode'' (JInt 1)\<rparr>"

text \<open>\<^verbatim>\<open>if details: writer.writerow(...)\<close>\<close>

definition saved_rows :: "service \<Rightarrow> document option \<Rightarrow> snapshot_row list" where
  "saved_rows s details =
     (case details of None \<Rightarrow> []
      | Some d \<Rightarrow> if truthy d then [project s d] else [])"

text \<open>
  The loop inside the \<^verbatim>\<open>with\<close> block: the rows written, the exception that ended
  the loop if one did, and the world.
\<close>

fun save_loop ::
  "server \<Rightarrow> manager \<Rightarrow> service list \<Rightarrow> world
     \<Rightarrow> (snapshot_row list \<times> py_error option) \<times> world" where
  "save_loop srv mgr [] w = (([], None), w)"
| "save_loop srv mgr (s # ss) w =
     (if folder s \<in> excluded_folders then save_loop srv mgr ss w
      else
        (case get_service_details srv mgr (folder s) (name s) (type s) w of
           (Inl e, w1) \<Rightarrow> (([], Some e), w1)
         | (Inr details, w1) \<Rightarrow>
             (case save_loop srv mgr ss w1 of
                ((rows, raised), w2) \<Rightarrow> ((saved_rows s details @ rows, raised), w2))))"

text \<open>
  \<^verbatim>\<open>save_services_state\<close>. \<^verbatim>\<open>get_services\<close> is called before the \<^verbatim>\<open>try\<close>, so its
  exception leaves the function. Opening the output file is the one file operation that
  can fail here; that exception is caught and the result is \<^verbatim>\<open>False\<close>. The file is
  opened (and truncated) before the loop. An exception in the loop is caught too: the
  file then keeps the header and the rows written before it, and the result is
  \<^verbatim>\<open>False\<close>.
\<close>

definition save_services_state ::
  "server \<Rightarrow> manager \<Rightarrow> string \<Rightarrow> world \<Rightarrow> (py_error + bool) \<times> world" where
  "save_services_state srv mgr output_file w =
     (case get_services srv mgr w of
        (Inl e, w1) \<Rightarrow> (Inl e, w1)
      | (Inr svcs, w1) \<Rightarrow>
          if svcs = [] then (Inr False, w1)
          else if output_file \<in> unwritable w1 then (Inr False, w1)
          else
            (case save_loop srv mgr svcs w1 of
               ((rows, raised), w2) \<Rightarrow>
                 (Inr (raised = None), w2\<lparr>files := (files w2)(output_file \<mapsto> encode rows)\<rparr>)))"

section \<open>The snapshot file: reading\<close>

text \<open>
  \<^verbatim>\<open>open(input_file, 'r', encoding='utf-8')\<close> gives no \<^verbatim>\<open>newline\<close> argument, so the
  file is read with universal newlines: every \<^verbatim>\<open>\r\n\<close> and every lone \<^verbatim>\<open>\r\<close>
  arrives as \<^verbatim>\<open>\n\<close>. (The file is written with \<^verbatim>\<open>newline=''\<close>, untranslated.)
\<close>

fun universal_newlines :: "string \<Rightarrow> string" where
  "universal_newlines [] = []"
| "universal_newlines [c] = (if c = CR then [LF] else [c])"
| "universal_newlines (c # d # cs) =
     (if c = CR then (if d = LF then LF # universal_newlines cs
                      else LF # universal_newlines (d # cs))
      else c # universal_newlines (d # cs))"

text \<open>Iterating over the file: each line runs up to and including its \<^verbatim>\<open>\n\<close>.\<close>

fun lines_from :: "string \<Rightarrow> string \<Rightarrow> string list" where
  "lines_from cur [] = (if cur = [] then [] else [cur])"
| "lines_from cur (c # cs) =
     (if c = LF then (cur @ [c]) # lines_from [] cs else lines_from (cur @ [c]) cs)"

definition read_lines :: "string \<Rightarrow> string list" where
  "read_lines text = lines_from [] (universal_newlines text)"

text \<open>
  The state machine of \<^verbatim>\<open>csv.reader\<close> for the \<^verbatim>\<open>excel\<close> dialect (no escape
  character, double quotes, not strict), one character at a time; \<open>None\<close> is the
  end-of-line mark fed after the last character of each line. The states that need an
  escape character are left out. A failed step is \<^verbatim>\<open>_csv.Error\<close>. A NUL character
  is an ordinary character, as it is from Python 3.11 on.
\<close>

datatype pstate =
  START_RECORD | START_FIELD | IN_FIELD | IN_QUOTED_FIELD | QUOTE_IN_QUOTED_FIELD | EAT_CRNL

record parser =
  state :: pstate
  field_buf :: string
  saved :: "string list"

definition new_parser :: parser where
  "new_parser = \<lparr>state = START_RECORD, field_buf = [], saved = []\<rparr>"

definition parse_save_field :: "parser \<Rightarrow> parser" where
  "parse_save_field p = p\<lparr>saved := saved p @ [field_buf p], field_buf := []\<rparr>"

definition parse_add_char :: "parser \<Rightarrow> char \<Rightarrow> parser" where
  "parse_add_char p c = p\<lparr>field_buf := field_buf p @ [c]\<rparr>"

definition start_field :: "parser \<Rightarrow> char option \<Rightarrow> parser" where
  "start_field p c =
     (case c of
        None \<Rightarrow> (parse_save_field p)\<lparr>state := START_RECORD\<rparr>
      | Some ch \<Rightarrow>
          if ch = LF \<or> ch = CR then (parse_save_field p)\<lparr>state := EAT_CRNL\<rparr>
          else if ch = QUOTE then p\<lparr>state := IN_QUOTED_FIELD\<rparr>
          else if ch = COMMA then (parse_save_field p)\<lparr>state := START_FIELD\<rparr>
          else (parse_add_char p ch)\<lparr>state := IN_FIELD\<rparr>)"

definition parse_process_char :: "parser \<Rightarrow> char option \<Rightarrow> parser option" where
  "parse_process_char p c =
     (case state p of
        START_RECORD \<Rightarrow>
          (case c of
             None \<Rightarrow> Some p
           | Some ch \<Rightarrow>
               if ch = LF \<or> ch = CR then Some (p\<lparr>state := EAT_CRNL\<rparr>)
               else Some (start_field p c))
      | START_FIELD \<Rightarrow> Some (start_field p c)
      | IN_FIELD \<Rightarrow>
          (case c of
             None \<Rightarrow> Some ((parse_save_field p)\<lparr>state := START_RECORD\<rparr>)
           | Some ch \<Rightarrow>
               if ch = LF \<or> ch = CR then Some ((parse_save_field p)\<lparr>state := EAT_CRNL\<rparr>)
               else if ch = COMMA then Some ((parse_save_field p)\<lparr>state := START_FIELD\<rparr>)
               else Some (parse_add_char p ch))
      | IN_QUOTED_FIELD \<Rightarrow>
          (case c of
             None \<Rightarrow> Some p
           | Some ch \<Rightarrow>
               if ch = QUOTE then Some (p\<lparr>state := QUOTE_IN_QUOTED_FIELD\<rparr>)
               else Some (parse_add_char p ch))
      | QUOTE_IN_QUOTED_FIELD \<Rightarrow>
          (case c of
             None \<Rightarrow> Some ((parse_save_field p)\<lparr>state := START_RECORD\<rparr>)
           | Some ch \<Rightarrow>
               if ch = QUOTE then Some ((parse_add_char p ch)\<lparr>state := IN_QUOTED_FIELD\<rparr>)
               else if ch = COMMA then Some ((parse_save_field p)\<lparr>state := START_FIELD\<rparr>)
               else if ch = LF \<or> ch = CR then Some ((parse_save_field p)\<lparr>state := EAT_CRNL\<rparr>)
               else Some ((parse_add_char p ch)\<lparr>state := IN_FIELD\<rparr>))
      | EAT_CRNL \<Rightarrow>
          (case c of
             None \<Rightarrow> Some (p\<lparr>state := START_RECORD\<rparr>)
           | Some ch \<Rightarrow> if ch = LF \<or> ch = CR then Some p else None))"

text \<open>One line: its characters, then the end-of-line mark.\<close>

fun feed :: "parser \<Rightarrow> string \<Rightarrow> parser option" where
  "feed p [] = Some p"
| "feed p (c # cs) =
     (case parse_process_char p (Some c) of
        None \<Rightarrow> None
      | Some p' \<Rightarrow> feed p' cs)"

definition process_line :: "parser \<Rightarrow> string \<Rightarrow> parser option" where
  "process_line p l =
     (case feed p l of
        None \<Rightarrow> None
      | Some p' \<Rightarrow> parse_process_char p' None)"

text \<open>
  All records of the reader, and whether reading ended in \<^verbatim>\<open>_csv.Error\<close> after them.
  A record takes lines until the state is \<open>START_RECORD\<close> again; at the end of the input
  a pending field, or an open quoted field, still gives a record.
\<close>

fun read_records :: "parser \<Rightarrow> string list \<Rightarrow> string list list \<times> bool" where
  "read_records p [] =
     (if field_buf p \<noteq> [] \<or> state p = IN_QUOTED_FIELD
      then ([saved (parse_save_field p)], False) else ([], False))"
| "read_records p (l # ls) =
     (case process_line p l of
        None \<Rightarrow> ([], True)
      | Some p' \<Rightarrow>
          if state p' = START_RECORD
          then (case read_records new_parser ls of (rs, failed) \<Rightarrow> (saved p' # rs, failed))
          else read_records p' ls)"

definition csv_reader :: "string list \<Rightarrow> string list list \<times> bool" where
  "csv_reader ls = read_records new_parser ls"

text \<open>
  \<^verbatim>\<open>csv.DictReader\<close>: the first record gives the field names; empty records after it
  are skipped; a short record leaves the missing columns \<^verbatim>\<open>None\<close>. The surplus of a long
  record goes under the key \<^verbatim>\<open>None\<close>, which no string key reads. The dictionary is kept
  as an association list with the latest assignment first.
\<close>

type_synonym csv_row = "(string \<times> string option) list"

definition row_dict :: "string list \<Rightarrow> string list \<Rightarrow> csv_row" where
  "row_dict names cells =
     rev (zip names (map Some cells) @ map (\<lambda>k. (k, None)) (drop (length cells) names))"

definition dict_reader :: "string list \<Rightarrow> csv_row list \<times> bool" where
  "dict_reader ls =
     (case csv_reader ls of
        ([], failed) \<Rightarrow> ([], failed)
      | (header # recs, failed) \<Rightarrow> (map (row_dict header) (filter (\<lambda>r. r \<noteq> []) recs), failed))"

section \<open>Restore\<close>

text \<open>\<^verbatim>\<open>row[key]\<close>\<close>

definition column :: "csv_row \<Rightarrow> string \<Rightarrow> py_error + string option" where
  "column row k = (case map_of row k of None \<Rightarrow> Inl KeyError | Some v \<Rightarrow> Inr v)"

text \<open>
  \<^verbatim>\<open>int(s)\<close> on a string. A string with a character outside ASCII is first rewritten:
  characters below 127 stay, a Unicode space (below 256 these are \<^verbatim>\<open>\x85\<close> and
  \<^verbatim>\<open>\xa0\<close>) becomes a blank, a Unicode decimal digit becomes its ASCII digit (below
  256 there is none besides the ASCII ones), and any other character ends the text with
  a question mark, which no integer literal holds. A character 127 in an ASCII string
  stays and is no part of an integer literal either. Then the C whitespace (blank and
  \<^verbatim>\<open>\t \n \v \f \r\<close>) is skipped at both ends, a sign may lead, and decimal digits
  follow, with single underscores allowed between digits.
\<close>

definition int_char :: "char \<Rightarrow> char option" where
  "int_char c =
     (if (of_char c :: nat) < 127 then Some c
      else if c = CHR 0x85 \<or> c = CHR 0xA0 then Some (CHR '' '')
      else None)"

fun int_text :: "string \<Rightarrow> string option" where
  "int_text [] = Some []"
| "int_text (c # cs) =
     (case int_char c of
        None \<Rightarrow> None
      | Some d \<Rightarrow> (case int_text cs of None \<Rightarrow> None | Some ds \<Rightarrow> Some (d # ds)))"

definition is_space :: "char \<Rightarrow> bool" where
  "is_space c = (c \<in> set [CHR '' '', CHR 0x09, CHR 0x0A, CHR 0x0B, CHR 0x0C, CHR 0x0D])"

definition strip :: "string \<Rightarrow> string" where
  "strip s = rev (dropWhile is_space (rev (dropWhile is_space s)))"

definition is_digit :: "char \<Rightarrow> bool" where
  "is_digit c = (c \<in> set ''0123456789'')"

fun parse_digits :: "nat \<Rightarrow> bool \<Rightarrow> string \<Rightarrow> nat option" where
  "parse_digits acc after_digit [] = (if after_digit then Some acc else None)"
| "parse_digits acc after_digit (c # cs) =
     (if is_digit c then parse_digits (10 * acc + (of_char c - 48)) True cs
      else if c = CHR ''_'' \<and> after_digit then parse_digits acc False cs
      else None)"

definition py_int :: "string \<Rightarrow> int option" where
  "py_int s =
     (case int_text s of
        None \<Rightarrow> None
      | Some t \<Rightarrow>
          (case strip t of
             [] \<Rightarrow> None
           | c # cs \<Rightarrow>
               if c = CHR ''-'' then map_option (\<lambda>n. - int n) (parse_digits 0 False cs)
               else if c = CHR ''+'' then map_option int (parse_digits 0 False cs)
               else map_option int (parse_digits 0 False (c # cs))))"

text \<open>\<^verbatim>\<open>int(row[key])\<close>: \<^verbatim>\<open>int(None)\<close> is a \<^verbatim>\<open>TypeError\<close>, a malformed string a
  \<^verbatim>\<open>ValueError\<close>.\<close>

definition int_column :: "csv_row \<Rightarrow> string \<Rightarrow> py_error + int" where
  "int_column row k =
     (case column row k of
        Inl e \<Rightarrow> Inl e
      | Inr None \<Rightarrow> Inl TypeError
      | Inr (Some s) \<Rightarrow> (case py_int s of None \<Rightarrow> Inl ValueError | Some i \<Rightarrow> Inr i))"

text \<open>The six assignments at the head of the loop body, in their order.\<close>

record snapshot_record =
  rec_folder :: "string option"
  rec_name :: "string option"
  rec_type :: "string option"
  rec_state :: "string option"
  rec_min :: int
  rec_max :: int

definition bind_err :: "'e + 'a \<Rightarrow> ('a \<Rightarrow> 'e + 'b) \<Rightarrow> 'e + 'b" where
  "bind_err x f = (case x of Inl e \<Rightarrow> Inl e | Inr v \<Rightarrow> f v)"

definition parse_row :: "csv_row \<Rightarrow> py_error + snapshot_record" where
  "parse_row row =
     bind_err (column row ''folder'') (\<lambda>f.
     bind_err (column row ''service_name'') (\<lambda>n.
     bind_err (column row ''service_type'') (\<lambda>t.
     bind_err (column row ''configured_state'') (\<lambda>st.
     bind_err (int_column row ''min_instances'') (\<lambda>mn.
     bind_err (int_column row ''max_instances'') (\<lambda>mx.
       Inr \<lparr>rec_folder = f, rec_name = n, rec_type = t, rec_state = st,
            rec_min = mn, rec_max = mx\<rparr>))))))"

text \<open>
  A column that a short record left \<^verbatim>\<open>None\<close>: as a folder it is false and in no set, so
  it acts as the root folder; in an endpoint it is formatted as the text \<^verbatim>\<open>None\<close>.
\<close>

definition folder_text :: "string option \<Rightarrow> string" where
  "folder_text f = (case f of None \<Rightarrow> [] | Some s \<Rightarrow> s)"

definition format_text :: "string option \<Rightarrow> string" where
  "format_text x = (case x of None \<Rightarrow> ''None'' | Some s \<Rightarrow> s)"

text \<open>
  \<^verbatim>\<open>configured_state.upper() == 'STARTED'\<close>: only this comparison uses the upper case.
  Below 256 the upper case of a character is an ASCII letter only for the ASCII letters
  themselves, so mapping the ASCII letters alone gives the comparison its value.
\<close>

definition upper_char :: "char \<Rightarrow> char" where
  "upper_char c =
     (case map_of (zip ''abcdefghijklmnopqrstuvwxyz'' ''ABCDEFGHIJKLMNOPQRSTUVWXYZ'') c of
        None \<Rightarrow> c
      | Some u \<Rightarrow> u)"

definition upper :: "string \<Rightarrow> string" where
  "upper s = map upper_char s"

text \<open>
  The rest of the loop body for a parsed row. A failed edit skips the start or stop.
  \<^verbatim>\<open>configured_state.upper()\<close> on \<^verbatim>\<open>None\<close> raises \<^verbatim>\<open>AttributeError\<close>, after the edit.
  The result is the exception that ended the body, if one did.
\<close>

definition restore_record ::
  "server \<Rightarrow> manager \<Rightarrow> snapshot_record \<Rightarrow> world \<Rightarrow> py_error option \<times> world" where
  "restore_record srv mgr r w =
     (let f = folder_text (rec_folder r); n = format_text (rec_name r);
          t = format_text (rec_type r)
      in if f \<in> excluded_folders then (None, w)
         else
           (case update_service_instances srv mgr f n t (rec_min r) (rec_max r) w of
              (Inl e, w1) \<Rightarrow> (Some e, w1)
            | (Inr updated, w1) \<Rightarrow>
                if \<not> updated then (None, w1)
                else
                  (case rec_state r of
                     None \<Rightarrow> (Some AttributeError, w1)
                   | Some st \<Rightarrow>
                       if upper st = ''STARTED''
                       then (case start_service srv mgr f n t w1 of
                               (Inl e, w2) \<Rightarrow> (Some e, w2)
                             | (Inr started, w2) \<Rightarrow> (None, w2))
                       else (case stop_service srv mgr f n t w1 of
                               (Inl e, w2) \<Rightarrow> (Some e, w2)
                             | (Inr stopped, w2) \<Rightarrow> (None, w2)))))"

definition restore_row :: "server \<Rightarrow> manager \<Rightarrow> csv_row \<Rightarrow> world \<Rightarrow> py_error option \<times> world" where
  "restore_row srv mgr row w =
     (case parse_row row of
        Inl e \<Rightarrow> (Some e, w)
      | Inr r \<Rightarrow> restore_record srv mgr r w)"

text \<open>\<^verbatim>\<open>for row in reader\<close>: an exception leaves the loop.\<close>

fun restore_loop :: "server \<Rightarrow> manager \<Rightarrow> csv_row list \<Rightarrow> world \<Rightarrow> py_error option \<times> world" where
  "restore_loop srv mgr [] w = (None, w)"
| "restore_loop srv mgr (row # rows) w =
     (case restore_row srv mgr row w of
        (Some e, w1) \<Rightarrow> (Some e, w1)
      | (None, w1) \<Rightarrow> restore_loop srv mgr rows w1)"

text \<open>
  \<^verbatim>\<open>restore_services_state\<close>: a file that cannot be opened, and any exception raised
  in the loop, give \<^verbatim>\<open>False\<close>; otherwise the result is \<^verbatim>\<open>True\<close>.
\<close>

definition restore_services_state :: "server \<Rightarrow> manager \<Rightarrow> string \<Rightarrow> world \<Rightarrow> bool \<times> world" where
  "restore_services_state srv mgr input_file w =
     (case files w input_file of
        None \<Rightarrow> (False, w)
      | Some text \<Rightarrow>
          (case dict_reader (read_lines text) of
             (rows, failed) \<Rightarrow>
               (case restore_loop srv mgr rows w of
                  (Some e, w1) \<Rightarrow> (False, w1)
                | (None, w1) \<Rightarrow> (\<not> failed, w1))))"

text \<open>Decoding alone: the parsed record, or the exception, of every row of a snapshot text.\<close>

definition decode :: "string \<Rightarrow> (py_error + snapshot_record) list" where
  "decode text = map parse_row (fst (dict_reader (read_lines text)))"

section \<open>Sample servers and worlds\<close>

text \<open>Concrete inputs on which the theorems below are instantiated.\<close>

definition initial_world :: world where
  "initial_world = \<lparr>history = [], files = (\<lambda>p. None), unwritable = {}\<rparr>"

definition admin :: manager where
  "admin = \<lparr>token = Some ''tok''\<rparr>"

definition parcels_config :: document where
  "parcels_config =
     \<lparr>members = [(''serviceName'', JStr ''Parcels''),
                 (''configuredState'', JStr ''STARTED''),
                 (''minInstancesPerNode'', JInt 2),
                 (''maxInstancesPerNode'', JInt 4),
                 (''status'', JOther ''{}''),
                 (''extensions'', JOther ''[]'')],
      services = None, folders = None\<rparr>"

definition success_document :: document where
  "success_document = \<lparr>members = [(''status'', JStr ''success'')], services = None, folders = None\<rparr>"

definition hosted_config :: document where
  "hosted_config =
     \<lparr>members = [(''serviceName'', JStr ''X''),
                 (''configuredState'', JStr ''STOPPED''),
                 (''minInstancesPerNode'', JInt 0),
                 (''maxInstancesPerNode'', JInt 3)],
      services = None, folders = None\<rparr>"

text \<open>A server with \<^verbatim>\<open>Parcels.MapServer\<close> (STARTED, 2, 4) in the root folder and
  \<^verbatim>\<open>X.FeatureServer\<close> (STOPPED, 0, 3) in the folder \<^verbatim>\<open>Hosted\<close>; every POST reports
  success.\<close>

definition example_server :: server where
  "example_server h req =
     (if endpoint req = ''services'' then
        Response \<lparr>members = [], services = Some [(''Parcels'', ''MapServer'')],
                  folders = Some [''Hosted'']\<rparr>
      else if endpoint req = ''services/Hosted'' then
        Response \<lparr>members = [], services = Some [(''X'', ''FeatureServer'')], folders = Some []\<rparr>
      else if endpoint req = ''services/Parcels.MapServer'' then Response parcels_config
      else if endpoint req = ''services/Hosted/X.FeatureServer'' then Response hosted_config
      else if req_method req = POST then Response success_document
      else RequestException)"

text \<open>A server on which every request fails in the transport.\<close>

definition failing_server :: server where
  "failing_server h req = RequestException"

text \<open>A server that answers every request with an empty listing.\<close>

definition empty_server :: server where
  "empty_server h req = Response \<lparr>members = [], services = Some [], folders = Some []\<rparr>"

text \<open>
  A server with four root services and three folders. The listing of \<^verbatim>\<open>Broken\<close> is an
  error reply, the listing of \<^verbatim>\<open>Maps\<close> reports a folder of its own. The details of
  \<^verbatim>\<open>Roads\<close> fail in the transport, those of \<^verbatim>\<open>Maps/Rail\<close> are an empty object, those
  of \<^verbatim>\<open>Bare\<close> have none of the three members that save reads, and those of \<^verbatim>\<open>a,b\<close>
  and \<^verbatim>\<open>Maps/Rivers\<close> need quoting, an empty cell and a negative number.
\<close>

definition inventory_server :: server where
  "inventory_server h req =
     (if endpoint req = ''services'' then
        Response \<lparr>members = [],
                  services = Some [(''Roads'', ''MapServer''), (''Parcels'', ''MapServer''),
                                   (''a,b'', ''GPServer''), (''Bare'', ''MapServer'')],
                  folders = Some [''Hosted'', ''Broken'', ''Maps'']\<rparr>
      else if endpoint req = ''services/Hosted'' then
        Response \<lparr>members = [],
                  services = Some [(''X'', ''FeatureServer''), (''Y'', ''FeatureServer''),
                                   (''Z'', ''MapServer'')],
                  folders = None\<rparr>
      else if endpoint req = ''services/Broken'' then
        Response \<lparr>members = [(''error'', JObject ''{}'')],
                  services = Some [(''Ghost'', ''MapServer'')], folders = None\<rparr>
      else if endpoint req = ''services/Maps'' then
        Response \<lparr>members = [],
                  services = Some [(''Rivers'', ''MapServer''), (''Rail'', ''MapServer'')],
                  folders = Some [''Deep'']\<rparr>
      else if endpoint req = ''services/Parcels.MapServer'' then Response parcels_config
      else if endpoint req = ''services/a,b.GPServer'' then
        Response \<lparr>members = [(''configuredState'', JStr (''say '' @ [CHR 0x22] @ ''hi'' @ [CHR 0x22])),
                             (''minInstancesPerNode'', JInt 10),
                             (''maxInstancesPerNode'', JInt 25)],
                  services = None, folders = None\<rparr>
      else if endpoint req = ''services/Bare.MapServer'' then
        Response \<lparr>members = [(''serviceName'', JStr ''Bare'')], services = None, folders = None\<rparr>
      else if endpoint req = ''services/Maps/Rivers.MapServer'' then
        Response \<lparr>members = [(''configuredState'', JNull),
                             (''minInstancesPerNode'', JInt 0),
                             (''maxInstancesPerNode'', JInt (- 3))],
                  services = None, folders = None\<rparr>
      else if endpoint req = ''services/Maps/Rail.MapServer'' then
        Response \<lparr>members = [], services = None, folders = None\<rparr>
      else RequestException)"

text \<open>
  A server with three root services whose error replies carry no error object: the
  details of \<^verbatim>\<open>B\<close> are \<^verbatim>\<open>{"error": null}\<close>, and the stop of \<^verbatim>\<open>A\<close> is answered with
  \<^verbatim>\<open>{"error": "denied"}\<close>.
\<close>

definition denying_server :: server where
  "denying_server h req =
     (if endpoint req = ''services'' then
        Response \<lparr>members = [],
                  services = Some [(''A'', ''MapServer''), (''B'', ''MapServer''),
                                   (''C'', ''MapServer'')],
                  folders = Some []\<rparr>
      else if endpoint req = ''services/A.MapServer/stop'' then
        Response \<lparr>members = [(''error'', JStr ''denied'')], services = None, folders = None\<rparr>
      else if endpoint req = ''services/A.MapServer'' then Response parcels_config
      else if endpoint req = ''services/B.MapServer'' then
        Response \<lparr>members = [(''error'', JNull)], services = None, folders = None\<rparr>
      else if req_method req = POST then Response success_document
      else RequestException)"

definition header_line :: string where
  "header_line = ''folder,service_name,service_type,configured_state,min_instances,max_instances''"

text \<open>A snapshot whose first row has the instance count \<^verbatim>\<open>two\<close>; one with a short
  second row; one that names a service in the folder \<^verbatim>\<open>Hosted\<close>; and one whose row has
  an empty folder column and the service name \<^verbatim>\<open>Hosted/X\<close>.\<close>

definition damaged_snapshot :: string where
  "damaged_snapshot =
     header_line @ [CR, LF] @ '',Roads,MapServer,STARTED,two,4'' @ [CR, LF]
       @ '',Parcels,MapServer,STARTED,2,4'' @ [CR, LF]"

definition short_snapshot :: string where
  "short_snapshot =
     header_line @ [CR, LF] @ '',Parcels,MapServer,started,2,4'' @ [CR, LF]
       @ '',Roads,MapServer'' @ [CR, LF] @ '',Parcels,MapServer,STOPPED,1,1'' @ [CR, LF]"

definition hosted_snapshot :: string where
  "hosted_snapshot = header_line @ [CR, LF] @ ''Hosted,X,FeatureServer,STARTED,1,1'' @ [CR, LF]"

definition path_snapshot :: string where
  "path_snapshot = header_line @ [CR, LF] @ '',Hosted/X,FeatureServer,STARTED,1,1'' @ [CR, LF]"

definition snapshot_world :: "string \<Rightarrow> world" where
  "snapshot_world text =
     \<lparr>history = [], files = (\<lambda>p. if p = ''services.csv'' then Some text else None),
      unwritable = {}\<rparr>"

definition readonly_world :: world where
  "readonly_world = \<lparr>history = [], files = (\<lambda>p. None), unwritable = {''services.csv''}\<rparr>"

text \<open>
  A condition on the server that several properties below need as a hypothesis: the
  \<^verbatim>\<open>error\<close> member of every reply that has one is an object, as the Admin API
  documents it.
\<close>

abbreviation errors_are_objects :: "server \<Rightarrow> bool" where
  "errors_are_objects srv \<equiv>
     \<forall>h req d v. srv h req = Response d \<longrightarrow> map_of (members d) ''error'' = Some v
       \<longrightarrow> (\<exists>t. v = JObject t)"

section \<open>Properties of the request executor and the catalogue\<close>

lemma make_request_sent:
  "token mgr = Some tok \<Longrightarrow> tok \<noteq> [] \<Longrightarrow>
   make_request srv mgr ep data m w =
     (accepted (srv (history w) (build_request tok ep data m)),
      w\<lparr>history := history w @ [build_request tok ep data m]\<rparr>)"
  by (simp add: make_request_def Let_def)

lemma make_request_unauthenticated:
  "token mgr = None \<or> token mgr = Some [] \<Longrightarrow> make_request srv mgr ep data m w = (Inr None, w)"
  by (auto simp: make_request_def)

lemma make_request_Some:
  "make_request srv mgr ep data m w = (Inr (Some d), w1) \<Longrightarrow>
   \<exists>tok. token mgr = Some tok \<and> tok \<noteq> []"
  by (auto simp: make_request_def split: option.splits if_splits)

lemma build_request_plain:
  "build_request tok ep [] m =
     \<lparr>req_method = m, endpoint = ep, params = [(''token'', PStr tok), (''f'', PStr ''json'')]\<rparr>"
  by (simp add: build_request_def)

lemma accepted_raises: "accepted r = Inl e \<Longrightarrow> e = AttributeError"
  by (auto simp: accepted_def split: reply.splits option.splits jval.splits)

lemma accepted_object_errors:
  assumes "errors_are_objects srv"
  shows "\<exists>x. accepted (srv h req) = Inr x"
proof (cases "srv h req")
  case RequestException
  then show ?thesis by (simp add: accepted_def)
next
  case (Response d)
  show ?thesis
  proof (cases "map_of (members d) ''error''")
    case None
    with Response show ?thesis by (simp add: accepted_def)
  next
    case (Some v)
    with assms Response obtain t where "v = JObject t" by blast
    with Response Some show ?thesis by (simp add: accepted_def)
  qed
qed


lemma make_request_raises:
  "make_request srv mgr ep data m w = (Inl e, w') \<Longrightarrow> e = AttributeError"
  by (auto simp: make_request_def Let_def split: option.splits if_splits dest: accepted_raises)

lemma admin_token: "token admin = Some ''tok''"
  by (simp add: admin_def)

lemma initial_world_simps:
  "history initial_world = []" "files initial_world p = None" "unwritable initial_world = {}"
  by (simp_all add: initial_world_def)












lemma request_evals:
  "build_request tok ep [] m =
     \<lparr>req_method = m, endpoint = ep, params = [(''token'', PStr tok), (''f'', PStr ''json'')]\<rparr>"
  "build_request tok ep [(''service'', PJson d)] m =
     \<lparr>req_method = m, endpoint = ep,
      params = [(''service'', PJson d), (''token'', PStr tok), (''f'', PStr ''json'')]\<rparr>"
  by (simp_all add: build_request_def)


lemma get_services_unauthenticated:
  "token mgr = None \<or> token mgr = Some [] \<Longrightarrow> get_services srv mgr w = (Inr [], w)"
  by (simp add: get_services_def make_request_unauthenticated listed_folders_def listed_services_def)

lemma get_services_nonempty_token:
  assumes "get_services srv mgr w = (Inr svcs, w1)" "svcs \<noteq> []"
  shows "\<exists>tok. token mgr = Some tok \<and> tok \<noteq> []"
proof (rule ccontr)
  assume "\<not> ?thesis"
  then have "token mgr = None \<or> token mgr = Some []" by (cases "token mgr") auto
  from get_services_unauthenticated [OF this, of srv w] assms show False by simp
qed

section \<open>Properties of the read-modify-write\<close>

lemmas request_defs = get_service_details_def start_service_def stop_service_def
  update_service_instances_def make_request_def build_request_def service_endpoint_def
  accepted_def reports_success_def truthy_def Let_def

text \<open>
  When the GET of the current configuration returns nothing usable (the request fails
  in the transport, the reply is an error reply with an error object, or the document
  is empty), the update returns \<^verbatim>\<open>False\<close> in the world the GET left: no POST has been
  added to the requests sent, and no file has changed.
\<close>

lemma update_unreadable_base_sends_no_edit:
  assumes g: "get_service_details srv mgr f n t w = (Inr r, w1)" and r: "\<not> truthy_result r"
  shows "update_service_instances srv mgr f n t mn mx w = (Inr False, w1)
         \<and> filter (\<lambda>q. req_method q = POST) (history w1)
           = filter (\<lambda>q. req_method q = POST) (history w)
         \<and> files w1 = files w"
proof -
  from r have u: "update_service_instances srv mgr f n t mn mx w = (Inr False, w1)"
    by (cases r) (simp_all add: update_service_instances_def g truthy_result_def)
  have h: "filter (\<lambda>q. req_method q = POST) (history w1)
             = filter (\<lambda>q. req_method q = POST) (history w)"
    using g by (auto simp: get_service_details_def make_request_def Let_def build_request_def
          split: option.splits if_splits)
  have fl: "files w1 = files w"
    using g by (auto simp: get_service_details_def make_request_def Let_def
          split: option.splits if_splits)
  from u h fl show ?thesis by simp
qed

text \<open>
  When the GET raises, so does the update, in the world the GET left: no POST has been
  added. The GET raises exactly when the reply has an \<^verbatim>\<open>error\<close> member that is not an
  object.
\<close>

lemma update_unreadable_base_raises:
  assumes g: "get_service_details srv mgr f n t w = (Inl e, w1)"
  shows "update_service_instances srv mgr f n t mn mx w = (Inl AttributeError, w1)
         \<and> filter (\<lambda>q. req_method q = POST) (history w1)
           = filter (\<lambda>q. req_method q = POST) (history w)"
proof -
  from g have e: "e = AttributeError"
    unfolding get_service_details_def by (rule make_request_raises)
  have h: "filter (\<lambda>q. req_method q = POST) (history w1)
             = filter (\<lambda>q. req_method q = POST) (history w)"
    using g by (auto simp: get_service_details_def make_request_def Let_def build_request_def
          split: option.splits if_splits)
  from e h show ?thesis by (simp add: update_service_instances_def g)
qed

lemma get_service_details_raises_iff:
  assumes tok: "token mgr = Some tok" "tok \<noteq> []"
  shows "(\<exists>e w1. get_service_details srv mgr f n t w = (Inl e, w1))
     = (\<exists>d v. srv (history w)
                 \<lparr>req_method = GET, endpoint = service_endpoint f n t,
                  params = [(''token'', PStr tok), (''f'', PStr ''json'')]\<rparr> = Response d
              \<and> map_of (members d) ''error'' = Some v \<and> (\<forall>x. v \<noteq> JObject x))"
  by (auto simp: get_service_details_def make_request_sent [OF tok] build_request_plain accepted_def
        split: reply.splits option.splits jval.splits)

text \<open>
  C9. The claim fails on a reply to the GET whose \<^verbatim>\<open>error\<close> member is not an object:
  the server answers the GET for \<^verbatim>\<open>B.MapServer\<close> with \<^verbatim>\<open>{"error": null}\<close>, and the
  update does not return \<^verbatim>\<open>False\<close>: it raises \<^verbatim>\<open>AttributeError\<close>, after the GET and
  without a POST.
\<close>

theorem update_raises_on_error_without_object:
  "denying_server []
      \<lparr>req_method = GET, endpoint = ''services/B.MapServer'',
       params = [(''token'', PStr ''tok''), (''f'', PStr ''json'')]\<rparr>
     = Response \<lparr>members = [(''error'', JNull)], services = None, folders = None\<rparr>
   \<and> update_service_instances denying_server admin [] ''B'' ''MapServer'' 2 4 initial_world
     = (Inl AttributeError,
        initial_world\<lparr>history :=
          [\<lparr>req_method = GET, endpoint = ''services/B.MapServer'',
            params = [(''token'', PStr ''tok''), (''f'', PStr ''json'')]\<rparr>]\<rparr>)"
  by (simp add: request_defs admin_token initial_world_simps denying_server_def)

lemma edit_record_lookup:
  "map_of (members (edit_record d mn mx)) k =
     (if k \<in> set readonly_props then None
      else if k = ''maxInstancesPerNode'' then Some (JInt mx)
      else if k = ''minInstancesPerNode'' then Some (JInt mn)
      else map_of (members d) k)"
  by (simp add: edit_record_def readonly_props_def delete_conv' update_conv')

lemma edit_record_listing:
  "services (edit_record d mn mx) = services d \<and> folders (edit_record d mn mx) = folders d"
  by (simp add: edit_record_def)

text \<open>
  C4. When the current record \<open>d\<close> has been read, the update sends exactly one further
  request: a POST to the service's \<^verbatim>\<open>edit\<close> endpoint whose \<^verbatim>\<open>service\<close> field is a
  record without the members \<^verbatim>\<open>status\<close>, \<^verbatim>\<open>configuredState\<close>, \<^verbatim>\<open>realTimeState\<close> and
  \<^verbatim>\<open>extensions\<close>, with \<^verbatim>\<open>minInstancesPerNode\<close> and \<^verbatim>\<open>maxInstancesPerNode\<close> set to
  the requested bounds, and with every other member as it is in \<open>d\<close>.
\<close>

theorem edit_payload_strips_readonly_fields:
  assumes g: "get_service_details srv mgr f n t w = (Inr (Some d), w1)" and d: "truthy d"
  shows "\<exists>tok payload.
           snd (update_service_instances srv mgr f n t mn mx w)
             = w1\<lparr>history := history w1 @
                   [\<lparr>req_method = POST, endpoint = service_endpoint f n t @ ''/edit'',
                     params = [(''service'', PJson payload), (''token'', PStr tok),
                               (''f'', PStr ''json'')]\<rparr>]\<rparr>
           \<and> (\<forall>k. map_of (members payload) k =
                 (if k \<in> {''status'', ''configuredState'', ''realTimeState'', ''extensions''}
                  then None
                  else if k = ''maxInstancesPerNode'' then Some (JInt mx)
                  else if k = ''minInstancesPerNode'' then Some (JInt mn)
                  else map_of (members d) k))
           \<and> services payload = services d \<and> folders payload = folders d"
proof -
  from g obtain tok where tok: "token mgr = Some tok" "tok \<noteq> []"
    unfolding get_service_details_def by (blast dest: make_request_Some)
  let ?payload = "edit_record d mn mx"
  let ?req = "build_request tok (service_endpoint f n t @ ''/edit'')
                   [(''service'', PJson ?payload)] POST"
  have "snd (update_service_instances srv mgr f n t mn mx w) = w1\<lparr>history := history w1 @ [?req]\<rparr>"
    by (cases "accepted (srv (history w1) ?req)")
       (simp_all add: update_service_instances_def g d make_request_sent [OF tok] Let_def)
  then have sent: "snd (update_service_instances srv mgr f n t mn mx w)
          = w1\<lparr>history := history w1 @
                [\<lparr>req_method = POST, endpoint = service_endpoint f n t @ ''/edit'',
                  params = [(''service'', PJson ?payload), (''token'', PStr tok),
                            (''f'', PStr ''json'')]\<rparr>]\<rparr>"
    by (simp add: build_request_def)
  have look: "\<forall>k. map_of (members ?payload) k =
                 (if k \<in> {''status'', ''configuredState'', ''realTimeState'', ''extensions''}
                  then None
                  else if k = ''maxInstancesPerNode'' then Some (JInt mx)
                  else if k = ''minInstancesPerNode'' then Some (JInt mn)
                  else map_of (members d) k)"
    by (simp add: edit_record_lookup readonly_props_def)
  from sent look edit_record_listing [of d mn mx] show ?thesis by blast
qed

lemma parcels_details:
  "get_service_details example_server admin [] ''Parcels'' ''MapServer'' initial_world =
     (Inr (Some parcels_config),
      initial_world\<lparr>history := [build_request ''tok'' ''services/Parcels.MapServer'' [] GET]\<rparr>)"
  by (simp add: get_service_details_def make_request_def admin_token initial_world_simps
        service_endpoint_def build_request_def example_server_def accepted_def
        parcels_config_def)

theorem edit_payload_strips_readonly_fields_witness:
  "get_service_details example_server admin [] ''Parcels'' ''MapServer'' initial_world =
     (Inr (Some parcels_config),
      initial_world\<lparr>history := [build_request ''tok'' ''services/Parcels.MapServer'' [] GET]\<rparr>)
   \<and> truthy parcels_config
   \<and> (\<exists>tok payload.
        history (snd (update_service_instances example_server admin [] ''Parcels'' ''MapServer'' 1 1
                        initial_world))
          = [build_request ''tok'' ''services/Parcels.MapServer'' [] GET,
             \<lparr>req_method = POST, endpoint = ''services/Parcels.MapServer/edit'',
               params = [(''service'', PJson payload), (''token'', PStr tok),
                         (''f'', PStr ''json'')]\<rparr>]
        \<and> map_of (members payload) ''status'' = None
        \<and> map_of (members payload) ''extensions'' = None
        \<and> map_of (members payload) ''configuredState'' = None
        \<and> map_of (members payload) ''minInstancesPerNode'' = Some (JInt 1)
        \<and> map_of (members payload) ''maxInstancesPerNode'' = Some (JInt 1)
        \<and> map_of (members payload) ''serviceName'' = Some (JStr ''Parcels''))"
proof -
  have d: "truthy parcels_config"
    by (simp add: truthy_def parcels_config_def)
  from edit_payload_strips_readonly_fields [OF parcels_details d, of 1 1]
  obtain tok payload where
    sent: "snd (update_service_instances example_server admin [] ''Parcels'' ''MapServer'' 1 1
                  initial_world)
             = initial_world\<lparr>history := [build_request ''tok'' ''services/Parcels.MapServer'' [] GET]\<rparr>
                 \<lparr>history := history (initial_world\<lparr>history :=
                      [build_request ''tok'' ''services/Parcels.MapServer'' [] GET]\<rparr>) @
                   [\<lparr>req_method = POST, endpoint = service_endpoint [] ''Parcels'' ''MapServer'' @ ''/edit'',
                     params = [(''service'', PJson payload), (''token'', PStr tok),
                               (''f'', PStr ''json'')]\<rparr>]\<rparr>"
    and look: "\<forall>k. map_of (members payload) k =
                 (if k \<in> {''status'', ''configuredState'', ''realTimeState'', ''extensions''}
                  then None
                  else if k = ''maxInstancesPerNode'' then Some (JInt 1)
                  else if k = ''minInstancesPerNode'' then Some (JInt 1)
                  else map_of (members parcels_config) k)"
    by blast
  have h: "history (snd (update_service_instances example_server admin [] ''Parcels'' ''MapServer'' 1 1
                        initial_world))
          = [build_request ''tok'' ''services/Parcels.MapServer'' [] GET,
             \<lparr>req_method = POST, endpoint = ''services/Parcels.MapServer/edit'',
               params = [(''service'', PJson payload), (''token'', PStr tok),
                         (''f'', PStr ''json'')]\<rparr>]"
    by (simp add: sent service_endpoint_def)
  have l: "map_of (members payload) ''status'' = None"
      "map_of (members payload) ''extensions'' = None"
      "map_of (members payload) ''configuredState'' = None"
      "map_of (members payload) ''minInstancesPerNode'' = Some (JInt 1)"
      "map_of (members payload) ''maxInstancesPerNode'' = Some (JInt 1)"
      "map_of (members payload) ''serviceName'' = Some (JStr ''Parcels'')"
    by (simp_all add: look parcels_config_def)
  from parcels_details d h l show ?thesis by blast
qed

section \<open>Properties of stop-all-but-one\<close>













text \<open>
  When no listed service outside the excluded folders has the keeper's name and the error
  member of every reply is an object, the workflow returns \<^verbatim>\<open>False\<close> after it has sent,
  in the order of the listing, one stop request to every listed service outside the
  excluded folders, and nothing else.
\<close>

lemma stop_loop_no_keeper:
  assumes tok: "token mgr = Some tok" "tok \<noteq> []" and errs: "errors_are_objects srv"
  shows "\<forall>s\<in>set svcs. folder s \<notin> excluded_folders \<longrightarrow> name s \<noteq> keep \<Longrightarrow>
   stop_loop srv mgr keep svcs found w =
     (Inr found, w\<lparr>history := history w @
        map (\<lambda>s. build_request tok (service_endpoint (folder s) (name s) (type s) @ ''/stop'') [] POST)
            (filter (\<lambda>s. folder s \<notin> excluded_folders) svcs)\<rparr>)"
proof (induction svcs arbitrary: found w)
  case Nil
  show ?case by simp
next
  case (Cons s svcs)
  from Cons.prems have rest: "\<forall>s\<in>set svcs. folder s \<notin> excluded_folders \<longrightarrow> name s \<noteq> keep"
    by simp
  show ?case
  proof (cases "folder s \<in> excluded_folders")
    case True
    with Cons.IH [OF rest] show ?thesis by simp
  next
    case False
    with Cons.prems have nk: "name s \<noteq> keep" by simp
    let ?req = "build_request tok (service_endpoint (folder s) (name s) (type s) @ ''/stop'') [] POST"
    from accepted_object_errors [OF errs]
    obtain x where x: "accepted (srv (history w) ?req) = Inr x" by blast
    have "stop_service srv mgr (folder s) (name s) (type s) w
            = (Inr (reports_success x), w\<lparr>history := history w @ [?req]\<rparr>)"
      by (simp add: stop_service_def make_request_sent [OF tok] x)
    with False nk Cons.IH [OF rest] show ?thesis by simp
  qed
qed

lemma keeper_not_found_still_stops_all:
  assumes g: "get_services srv mgr w = (Inr svcs, w1)"
    and tok: "token mgr = Some tok"
    and nk: "\<forall>s\<in>set svcs. folder s \<notin> excluded_folders \<longrightarrow> name s \<noteq> keep"
    and errs: "errors_are_objects srv"
  shows "stop_all_except_one srv mgr keep w =
     (Inr False, w1\<lparr>history := history w1 @
        map (\<lambda>s. \<lparr>req_method = POST,
                  endpoint = (if folder s = [] then ''services/'' @ name s @ ''.'' @ type s @ ''/stop''
                              else ''services/'' @ folder s @ ''/'' @ name s @ ''.'' @ type s @ ''/stop''),
                  params = [(''token'', PStr tok), (''f'', PStr ''json'')]\<rparr>)
            (filter (\<lambda>s. folder s \<notin> excluded_folders) svcs)\<rparr>)"
proof (cases "svcs = []")
  case True
  then show ?thesis by (simp add: stop_all_except_one_def g)
next
  case False
  with get_services_nonempty_token [OF g] tok have t: "tok \<noteq> []" by auto
  show ?thesis
    by (simp add: stop_all_except_one_def g False stop_loop_no_keeper [OF tok t errs nk]
          build_request_plain service_endpoint_def cong: if_cong)
qed

text \<open>
  C10. The claim fails on a stop that is answered with an error member that is no
  object. The server lists \<^verbatim>\<open>A\<close>, \<^verbatim>\<open>B\<close> and \<^verbatim>\<open>C\<close> in the root folder and answers the
  stop of \<^verbatim>\<open>A\<close> with \<^verbatim>\<open>{"error": "denied"}\<close>. The keeper \<^verbatim>\<open>Z\<close> matches no listed
  service. The workflow sends the stop of \<^verbatim>\<open>A\<close> and ends there with
  \<^verbatim>\<open>AttributeError\<close>: \<^verbatim>\<open>B\<close> and \<^verbatim>\<open>C\<close> are sent no stop, and no failure is returned.
\<close>

theorem keeper_not_found_stops_cut_short:
  "fst (get_services denying_server admin initial_world) =
     Inr [\<lparr>folder = [], name = ''A'', type = ''MapServer''\<rparr>,
          \<lparr>folder = [], name = ''B'', type = ''MapServer''\<rparr>,
          \<lparr>folder = [], name = ''C'', type = ''MapServer''\<rparr>]
   \<and> denying_server
       [\<lparr>req_method = GET, endpoint = ''services'',
         params = [(''token'', PStr ''tok''), (''f'', PStr ''json'')]\<rparr>]
       \<lparr>req_method = POST, endpoint = ''services/A.MapServer/stop'',
        params = [(''token'', PStr ''tok''), (''f'', PStr ''json'')]\<rparr>
     = Response \<lparr>members = [(''error'', JStr ''denied'')], services = None, folders = None\<rparr>
   \<and> stop_all_except_one denying_server admin ''Z'' initial_world =
       (Inl AttributeError,
        initial_world\<lparr>history :=
          [\<lparr>req_method = GET, endpoint = ''services'',
            params = [(''token'', PStr ''tok''), (''f'', PStr ''json'')]\<rparr>,
           \<lparr>req_method = POST, endpoint = ''services/A.MapServer/stop'',
            params = [(''token'', PStr ''tok''), (''f'', PStr ''json'')]\<rparr>]\<rparr>)"
proof -
  have l: "get_services denying_server admin initial_world =
     (Inr [\<lparr>folder = [], name = ''A'', type = ''MapServer''\<rparr>,
           \<lparr>folder = [], name = ''B'', type = ''MapServer''\<rparr>,
           \<lparr>folder = [], name = ''C'', type = ''MapServer''\<rparr>],
      initial_world\<lparr>history := [build_request ''tok'' ''services'' [] GET]\<rparr>)"
    by (simp add: get_services_def make_request_def admin_token initial_world_simps
        denying_server_def accepted_def listed_folders_def listed_services_def tag_services_def
        build_request_def)
  have d: "denying_server
       [\<lparr>req_method = GET, endpoint = ''services'',
         params = [(''token'', PStr ''tok''), (''f'', PStr ''json'')]\<rparr>]
       \<lparr>req_method = POST, endpoint = ''services/A.MapServer/stop'',
        params = [(''token'', PStr ''tok''), (''f'', PStr ''json'')]\<rparr>
     = Response \<lparr>members = [(''error'', JStr ''denied'')], services = None, folders = None\<rparr>"
    by (simp add: denying_server_def)
  have s: "stop_all_except_one denying_server admin ''Z'' initial_world =
       (Inl AttributeError,
        initial_world\<lparr>history :=
          [\<lparr>req_method = GET, endpoint = ''services'',
            params = [(''token'', PStr ''tok''), (''f'', PStr ''json'')]\<rparr>,
           \<lparr>req_method = POST, endpoint = ''services/A.MapServer/stop'',
            params = [(''token'', PStr ''tok''), (''f'', PStr ''json'')]\<rparr>]\<rparr>)"
    by (simp add: stop_all_except_one_def l excluded_folders_def request_defs
        admin_token initial_world_simps denying_server_def)
  from l d s show ?thesis by simp
qed

section \<open>Evaluation rules for the samples\<close>

lemmas reader_defs = read_lines_def csv_reader_def dict_reader_def row_dict_def new_parser_def
  process_line_def parse_process_char_def start_field_def parse_save_field_def parse_add_char_def
  CR_def LF_def COMMA_def QUOTE_def header_line_def

lemmas parse_defs = parse_row_def bind_err_def column_def int_column_def py_int_def strip_def
  is_space_def is_digit_def int_char_def

lemmas writer_defs = encode_def writerow_def fieldnames_def row_cells_def quote_field_def
  special_def str_int_def str_nat.simps digit_char_def

lemma snapshot_world_simps:
  "history (snapshot_world text) = []" "files (snapshot_world text) ''services.csv'' = Some text"
  by (simp_all add: snapshot_world_def)

lemma readonly_world_simps:
  "history readonly_world = []" "unwritable readonly_world = {''services.csv''}"
  by (simp_all add: readonly_world_def)

lemma inventory_listing:
  "get_services inventory_server admin initial_world =
     (Inr [\<lparr>folder = [], name = ''Roads'', type = ''MapServer''\<rparr>,
           \<lparr>folder = [], name = ''Parcels'', type = ''MapServer''\<rparr>,
           \<lparr>folder = [], name = ''a,b'', type = ''GPServer''\<rparr>,
           \<lparr>folder = [], name = ''Bare'', type = ''MapServer''\<rparr>,
           \<lparr>folder = ''Hosted'', name = ''X'', type = ''FeatureServer''\<rparr>,
           \<lparr>folder = ''Hosted'', name = ''Y'', type = ''FeatureServer''\<rparr>,
           \<lparr>folder = ''Hosted'', name = ''Z'', type = ''MapServer''\<rparr>,
           \<lparr>folder = ''Maps'', name = ''Rivers'', type = ''MapServer''\<rparr>,
           \<lparr>folder = ''Maps'', name = ''Rail'', type = ''MapServer''\<rparr>],
      initial_world\<lparr>history :=
        [build_request ''tok'' ''services'' [] GET, build_request ''tok'' ''services/Hosted'' [] GET,
         build_request ''tok'' ''services/Broken'' [] GET,
         build_request ''tok'' ''services/Maps'' [] GET]\<rparr>)"
  by (simp add: get_services_def make_request_def admin_token initial_world_simps
        inventory_server_def accepted_def listed_folders_def listed_services_def tag_services_def
        build_request_def)

lemma denying_listing:
  "get_services denying_server admin initial_world =
     (Inr [\<lparr>folder = [], name = ''A'', type = ''MapServer''\<rparr>,
           \<lparr>folder = [], name = ''B'', type = ''MapServer''\<rparr>,
           \<lparr>folder = [], name = ''C'', type = ''MapServer''\<rparr>],
      initial_world\<lparr>history := [build_request ''tok'' ''services'' [] GET]\<rparr>)"
  by (simp add: get_services_def make_request_def admin_token initial_world_simps
        denying_server_def accepted_def listed_folders_def listed_services_def tag_services_def
        build_request_def)

section \<open>Properties of save\<close>

lemma make_request_files:
  "make_request srv mgr ep data m w = (r, w') \<Longrightarrow> files w' = files w \<and> unwritable w' = unwritable w"
  by (auto simp: make_request_def Let_def split: option.splits if_splits)

lemma folder_services_files:
  "folder_services srv mgr fs w = (r, w') \<Longrightarrow> files w' = files w \<and> unwritable w' = unwritable w"
proof (induction fs arbitrary: w r w')
  case Nil
  then show ?case by simp
next
  case (Cons f fs)
  obtain x w1 where m: "make_request srv mgr (''services/'' @ f) [] GET w = (x, w1)"
    by (cases "make_request srv mgr (''services/'' @ f) [] GET w")
  note f1 = make_request_files [OF m]
  show ?case
  proof (cases x)
    case (Inl e)
    with Cons.prems m have "w' = w1" by simp
    with f1 show ?thesis by simp
  next
    case (Inr y)
    obtain z w2 where r: "folder_services srv mgr fs w1 = (z, w2)"
      by (cases "folder_services srv mgr fs w1")
    from Cons.prems m Inr r have "w' = w2" by (cases z) simp_all
    with Cons.IH [OF r] f1 show ?thesis by simp
  qed
qed

lemma get_services_files:
  "get_services srv mgr w = (svcs, w') \<Longrightarrow> files w' = files w \<and> unwritable w' = unwritable w"
proof -
  assume g: "get_services srv mgr w = (svcs, w')"
  obtain x w1 where m: "make_request srv mgr ''services'' [] GET w = (x, w1)"
    by (cases "make_request srv mgr ''services'' [] GET w")
  note f1 = make_request_files [OF m]
  show ?thesis
  proof (cases x)
    case (Inl e)
    with g m have "w' = w1" by (simp add: get_services_def)
    with f1 show ?thesis by simp
  next
    case (Inr result)
    obtain z w2 where r: "folder_services srv mgr (listed_folders result) w1 = (z, w2)"
      by (cases "folder_services srv mgr (listed_folders result) w1")
    from g m Inr r have "w' = w2" by (cases z) (simp_all add: get_services_def)
    with folder_services_files [OF r] f1 show ?thesis by simp
  qed
qed

lemma save_loop_files:
  "save_loop srv mgr svcs w = (r, w') \<Longrightarrow> files w' = files w"
proof (induction svcs arbitrary: w r w')
  case Nil
  then show ?case by simp
next
  case (Cons s svcs)
  show ?case
  proof (cases "folder s \<in> excluded_folders")
    case True
    with Cons show ?thesis by simp
  next
    case False
    obtain x w1 where m: "get_service_details srv mgr (folder s) (name s) (type s) w = (x, w1)"
      by (cases "get_service_details srv mgr (folder s) (name s) (type s) w")
    from make_request_files [OF m [unfolded get_service_details_def]]
    have f1: "files w1 = files w" by simp
    show ?thesis
    proof (cases x)
      case (Inl e)
      with Cons.prems False m have "w' = w1" by simp
      with f1 show ?thesis by simp
    next
      case (Inr d)
      obtain y w2 where r: "save_loop srv mgr svcs w1 = (y, w2)"
        by (cases "save_loop srv mgr svcs w1")
      from Cons.prems False m Inr r have "w' = w2" by (auto split: prod.splits)
      with Cons.IH [OF r] f1 show ?thesis by simp
    qed
  qed
qed

text \<open>
  The save loop in closed form: the detail requests go out in the order of the listing,
  to the services outside the excluded folders, up to and including the first one whose
  reply makes the request executor raise.
\<close>

lemma save_loop_closed:
  assumes tok: "token mgr = Some tok" "tok \<noteq> []"
  shows "save_loop srv mgr svcs w =
     (let ss = filter (\<lambda>s. folder s \<notin> excluded_folders) svcs;
          req = (\<lambda>s. build_request tok (service_endpoint (folder s) (name s) (type s)) [] GET);
          reply = (\<lambda>i. accepted (srv (history w @ map req (take i ss)) (req (ss ! i))));
          fetched = takeWhile (\<lambda>i. \<not> isl (reply i)) [0..<length ss]
      in ((concat (map (\<lambda>i. case_sum (\<lambda>e. []) (saved_rows (ss ! i)) (reply i)) fetched),
           if length fetched = length ss then None else Some AttributeError),
          w\<lparr>history := history w @ map req (take (Suc (length fetched)) ss)\<rparr>))"
proof (induction svcs arbitrary: w)
  case Nil
  show ?case by simp
next
  case (Cons s svcs)
  show ?case
  proof (cases "folder s \<in> excluded_folders")
    case True
    then show ?thesis using Cons.IH [of w] by simp
  next
    case False
    let ?ss = "filter (\<lambda>s. folder s \<notin> excluded_folders) svcs"
    let ?req = "build_request tok (service_endpoint (folder s) (name s) (type s)) [] GET"
    have upt: "[0..<length (s # ?ss)] = 0 # map Suc [0..<length ?ss]"
      by (simp add: upt_conv_Cons map_Suc_upt del: upt_Suc)
    from False have flt: "filter (\<lambda>s. folder s \<notin> excluded_folders) (s # svcs) = s # ?ss"
      by simp
    show ?thesis
    proof (cases "accepted (srv (history w) ?req)")
      case (Inl e)
      then have "e = AttributeError" by (rule accepted_raises)
      with Inl False show ?thesis
        unfolding Let_def flt upt
        by (simp add: get_service_details_def make_request_sent [OF tok])
    next
      case (Inr x)
      with False show ?thesis
        unfolding Let_def flt upt
        by (simp add: get_service_details_def make_request_sent [OF tok]
              Cons.IH [unfolded Let_def] takeWhile_map o_def cong: sum.case_cong)
    qed
  qed
qed

lemma save_result:
  assumes g: "get_services srv mgr w = (Inr svcs, w1)" and ne: "svcs \<noteq> []"
    and wr: "output_file \<notin> unwritable w"
  shows "save_services_state srv mgr output_file w =
           (Inr (snd (fst (save_loop srv mgr svcs w1)) = None),
            (snd (save_loop srv mgr svcs w1))
               \<lparr>files := (files w)(output_file \<mapsto> encode (fst (fst (save_loop srv mgr svcs w1))))\<rparr>)"
proof -
  from get_services_files [OF g]
  have w1: "files w1 = files w" "unwritable w1 = unwritable w" by simp_all
  obtain rows raised w2 where l: "save_loop srv mgr svcs w1 = ((rows, raised), w2)"
    by (cases "save_loop srv mgr svcs w1") auto
  from save_loop_files [OF l] w1 have "files w2 = files w" by simp
  with ne wr show ?thesis
    by (simp add: save_services_state_def g w1 l)
qed

lemma encode_rows:
  "encode (concat (map f idx)) =
     writerow fieldnames @ concat (map (\<lambda>i. concat (map (\<lambda>r. writerow (row_cells r)) (f i))) idx)"
  by (induction idx) (simp_all add: encode_def)

lemma header_text:
  "writerow fieldnames =
     ''folder,service_name,service_type,configured_state,min_instances,max_instances''
       @ [CHR 0x0D, CHR 0x0A]"
  by (simp add: writer_defs COMMA_def QUOTE_def CR_def LF_def)

lemma header_rows:
  "writerow fieldnames @ xs =
     ''folder,service_name,service_type,configured_state,min_instances,max_instances''
       @ [CHR 0x0D, CHR 0x0A] @ xs"
  by (simp add: header_text)

text \<open>What a detail request contributes to the file, read off the reply of the transport.\<close>

lemma line_of_reply:
  "concat (map (\<lambda>r. writerow (row_cells r)) (case_sum (\<lambda>e. []) (saved_rows s) (accepted r))) =
     (case r of
        RequestException \<Rightarrow> []
      | Response d \<Rightarrow>
          if map_of (members d) ''error'' = None
             \<and> (members d \<noteq> [] \<or> services d \<noteq> None \<or> folders d \<noteq> None)
          then quote_field (folder s) @ '','' @ quote_field (name s) @ '','' @
               quote_field (type s) @ '','' @
               quote_field (cell_text (case map_of (members d) ''configuredState'' of
                                         None \<Rightarrow> JStr ''STOPPED'' | Some v \<Rightarrow> v)) @ '','' @
               quote_field (cell_text (case map_of (members d) ''minInstancesPerNode'' of
                                         None \<Rightarrow> JInt 1 | Some v \<Rightarrow> v)) @ '','' @
               quote_field (cell_text (case map_of (members d) ''maxInstancesPerNode'' of
                                         None \<Rightarrow> JInt 1 | Some v \<Rightarrow> v)) @
               [CHR 0x0D, CHR 0x0A]
          else [])"
  by (auto simp: accepted_def saved_rows_def project_def get_default_def truthy_def row_cells_def
        writerow_def COMMA_def CR_def LF_def
        split: reply.splits option.splits jval.splits)

lemma raises_of_reply:
  "isl (accepted r) =
     (case r of
        RequestException \<Rightarrow> False
      | Response d \<Rightarrow>
          (case map_of (members d) ''error'' of
             None \<Rightarrow> False
           | Some v \<Rightarrow> (case v of JObject t \<Rightarrow> False | _ \<Rightarrow> True)))"
  by (auto simp: accepted_def split: reply.splits option.splits jval.splits)

lemma raised_none: "((if c then None else Some (e :: py_error)) = None) = c"
  by simp

lemma detail_request_plain:
  "build_request tok (service_endpoint f n t) [] GET =
     \<lparr>req_method = GET,
      endpoint = (if f = [] then ''services/'' @ n @ ''.'' @ t
                  else ''services/'' @ f @ ''/'' @ n @ ''.'' @ t),
      params = [(''token'', PStr tok), (''f'', PStr ''json'')]\<rparr>"
  by (simp add: build_request_def service_endpoint_def)

text \<open>
  C7. Given the listing, the file that save leaves is the header line followed, in the
  order of the listing, by one line for each service outside the excluded folders whose
  detail request returned a usable document (a reply that is an object without an
  \<^verbatim>\<open>error\<close> member and not empty): the service's folder, name and type and the
  document's \<^verbatim>\<open>configuredState\<close>, \<^verbatim>\<open>minInstancesPerNode\<close> and \<^verbatim>\<open>maxInstancesPerNode\<close>,
  where an absent member is replaced by \<^verbatim>\<open>STOPPED\<close>, 1 and 1; each field is quoted as
  the csv writer quotes it. A service whose request returned nothing usable has no
  line. The loop ends at the first reply whose \<^verbatim>\<open>error\<close> member is not an object; the
  services before it have their lines, and the result is \<^verbatim>\<open>True\<close> exactly when there was
  no such reply.
\<close>

theorem save_projects_fetched_services:
  assumes g: "get_services srv mgr w = (Inr svcs, w1)" and ne: "svcs \<noteq> []"
    and wr: "output_file \<notin> unwritable w" and tok: "token mgr = Some tok"
  shows
    "let ss = filter (\<lambda>s. folder s \<notin> {''Hosted'', ''System'', ''Utilities''}) svcs;
         request = (\<lambda>s.
           \<lparr>req_method = GET,
            endpoint = (if folder s = [] then ''services/'' @ name s @ ''.'' @ type s
                        else ''services/'' @ folder s @ ''/'' @ name s @ ''.'' @ type s),
            params = [(''token'', PStr tok), (''f'', PStr ''json'')]\<rparr>);
         reply = (\<lambda>i. srv (history w1 @ map request (take i ss)) (request (ss ! i)));
         raises = (\<lambda>r.
           case r of
             RequestException \<Rightarrow> False
           | Response d \<Rightarrow>
               (case map_of (members d) ''error'' of
                  None \<Rightarrow> False
                | Some v \<Rightarrow> (case v of JObject t \<Rightarrow> False | _ \<Rightarrow> True)));
         fetched = takeWhile (\<lambda>i. \<not> raises (reply i)) [0..<length ss];
         line = (\<lambda>s r.
           case r of
             RequestException \<Rightarrow> []
           | Response d \<Rightarrow>
               if map_of (members d) ''error'' = None
                  \<and> (members d \<noteq> [] \<or> services d \<noteq> None \<or> folders d \<noteq> None)
               then quote_field (folder s) @ '','' @ quote_field (name s) @ '','' @
                    quote_field (type s) @ '','' @
                    quote_field (cell_text (case map_of (members d) ''configuredState'' of
                                              None \<Rightarrow> JStr ''STOPPED'' | Some v \<Rightarrow> v)) @ '','' @
                    quote_field (cell_text (case map_of (members d) ''minInstancesPerNode'' of
                                              None \<Rightarrow> JInt 1 | Some v \<Rightarrow> v)) @ '','' @
                    quote_field (cell_text (case map_of (members d) ''maxInstancesPerNode'' of
                                              None \<Rightarrow> JInt 1 | Some v \<Rightarrow> v)) @
                    [CHR 0x0D, CHR 0x0A]
               else [])
     in files (snd (save_services_state srv mgr output_file w)) output_file =
          Some (''folder,service_name,service_type,configured_state,min_instances,max_instances''
                  @ [CHR 0x0D, CHR 0x0A]
                  @ concat (map (\<lambda>i. line (ss ! i) (reply i)) fetched))
        \<and> fst (save_services_state srv mgr output_file w) = Inr (length fetched = length ss)"
proof -
  from get_services_nonempty_token [OF g ne] tok have t: "tok \<noteq> []" by auto
  note loop = save_loop_closed [OF tok t, of srv svcs w1, unfolded Let_def raises_of_reply
      detail_request_plain excluded_folders_def]
  have written: "files (snd (save_services_state srv mgr output_file w)) output_file
      = Some (encode (fst (fst (save_loop srv mgr svcs w1))))"
    by (simp add: save_result [OF g ne wr])
  have result: "fst (save_services_state srv mgr output_file w)
      = Inr (snd (fst (save_loop srv mgr svcs w1)) = None)"
    by (simp add: save_result [OF g ne wr])
  show ?thesis
    unfolding Let_def written result loop fst_conv snd_conv encode_rows header_rows
      line_of_reply raised_none
    by (intro conjI refl)
qed

end
